theory Spec2Isabelle
  imports Complex_Main
begin

section \<open>The shop database of bot.py\<close>

text \<open>
  The bot keeps its state in one SQLite file. Each table of \<open>init_db\<close> that the
  payment path touches is a list of rows in insertion (rowid) order; a
  \<open>SELECT ... fetchone()\<close> without \<open>ORDER BY\<close> scans that order and returns
  the first match. Columns declared \<open>REAL\<close> are modelled by exact reals, nullable
  text columns by \<open>string option\<close>. The \<open>AUTOINCREMENT\<close> counters of
  \<open>sqlite_sequence\<close> are fields of the database. No table carries a
  \<open>UNIQUE\<close> constraint; only \<open>users.user_id\<close> is a primary key supplied by
  the caller. SQLite leaves the declared foreign keys unenforced unless the
  connection switches them on, which bot.py never does.
\<close>

type_synonym timestamp = string

record user_row =
  u_user_id :: int
  u_username :: "string option"
  u_first_name :: string
  u_balance :: real
  u_total_purchases :: int
  u_total_spent :: real
  u_registered_at :: timestamp

record product_row =
  p_id :: int
  p_category_id :: "int option"
  p_name :: string
  p_description :: "string option"
  p_price :: real
  p_product_type :: string
  p_content :: "string option"
  p_file_id :: "string option"
  p_is_active :: int
  p_created_at :: timestamp

record purchase_row =
  pu_id :: int
  pu_user_id :: int
  pu_product_id :: int
  pu_price :: real
  pu_purchased_at :: timestamp

record payment_row =
  pay_id :: int
  pay_user_id :: int
  pay_product_id :: int
  pay_invoice_id :: string
  pay_amount :: real
  pay_status :: string
  pay_created_at :: timestamp

record db =
  users :: "user_row list"
  products :: "product_row list"
  purchases :: "purchase_row list"
  payments :: "payment_row list"
  products_seq :: int
  purchases_seq :: int
  payments_seq :: int

text \<open>The database right after \<open>init_db\<close> has created the empty tables.\<close>

definition init_db :: db where
  "init_db = \<lparr>users = [], products = [], purchases = [], payments = [],
              products_seq = 0, purchases_seq = 0, payments_seq = 0\<rparr>"

text \<open>The part of \<open>types.User\<close> the bot reads.\<close>

record tg_user =
  tg_id :: int
  tg_username :: "string option"
  tg_first_name :: string

subsection \<open>Database helpers\<close>

text \<open>
  Every helper opens its own connection, runs its statements and commits
  once at the end, so each helper is one transaction. The clock value
  \<open>datetime.now().isoformat()\<close> is passed in as \<open>now\<close>.
\<close>

text \<open>\<open>INSERT OR IGNORE INTO users\<close>: nothing happens when the primary key exists.\<close>

definition add_user :: "tg_user \<Rightarrow> timestamp \<Rightarrow> db \<Rightarrow> db" where
  "add_user user now d =
     (case find (\<lambda>r. u_user_id r = tg_id user) (users d) of
        Some r \<Rightarrow> d
      | None \<Rightarrow> d\<lparr>users := users d @
          [\<lparr>u_user_id = tg_id user, u_username = tg_username user,
            u_first_name = tg_first_name user, u_balance = 0,
            u_total_purchases = 0, u_total_spent = 0, u_registered_at = now\<rparr>]\<rparr>)"

definition get_user :: "db \<Rightarrow> int \<Rightarrow> user_row option" where
  "get_user d uid = find (\<lambda>r. u_user_id r = uid) (users d)"

definition get_products_by_category :: "db \<Rightarrow> int \<Rightarrow> product_row list" where
  "get_products_by_category d category_id =
     filter (\<lambda>p. p_category_id p = Some category_id \<and> p_is_active p = 1) (products d)"

definition get_product :: "db \<Rightarrow> int \<Rightarrow> product_row option" where
  "get_product d product_id = find (\<lambda>p. p_id p = product_id) (products d)"

definition add_product ::
  "int option \<Rightarrow> string \<Rightarrow> string option \<Rightarrow> real \<Rightarrow> string \<Rightarrow> string option \<Rightarrow>
   string option \<Rightarrow> timestamp \<Rightarrow> db \<Rightarrow> db" where
  "add_product category_id name description price product_type content file_id now d =
     d\<lparr>products := products d @
         [\<lparr>p_id = products_seq d + 1, p_category_id = category_id, p_name = name,
           p_description = description, p_price = price, p_product_type = product_type,
           p_content = content, p_file_id = file_id, p_is_active = 1, p_created_at = now\<rparr>],
       products_seq := products_seq d + 1\<rparr>"

text \<open>\<open>UPDATE products SET is_active = 0 WHERE id = ?\<close>\<close>

definition delete_product :: "int \<Rightarrow> db \<Rightarrow> db" where
  "delete_product product_id d =
     d\<lparr>products := map (\<lambda>p. if p_id p = product_id then p\<lparr>p_is_active := 0\<rparr> else p)
                        (products d)\<rparr>"

text \<open>
  \<open>add_purchase\<close>: the \<open>INSERT\<close> into purchases and the \<open>UPDATE\<close> of the
  user's counters, under one commit. The \<open>UPDATE\<close> touches the rows whose
  \<open>user_id\<close> matches, which are none when the user has no row.
\<close>

definition add_purchase :: "int \<Rightarrow> int \<Rightarrow> real \<Rightarrow> timestamp \<Rightarrow> db \<Rightarrow> db" where
  "add_purchase user_id product_id price now d =
     d\<lparr>purchases := purchases d @
         [\<lparr>pu_id = purchases_seq d + 1, pu_user_id = user_id, pu_product_id = product_id,
           pu_price = price, pu_purchased_at = now\<rparr>],
       purchases_seq := purchases_seq d + 1,
       users := map (\<lambda>u. if u_user_id u = user_id
                          then u\<lparr>u_total_purchases := u_total_purchases u + 1,
                                 u_total_spent := u_total_spent u + price\<rparr>
                          else u) (users d)\<rparr>"

text \<open>\<open>save_payment\<close>: a plain \<open>INSERT\<close>; the status column takes its default.\<close>

definition save_payment :: "int \<Rightarrow> int \<Rightarrow> string \<Rightarrow> real \<Rightarrow> timestamp \<Rightarrow> db \<Rightarrow> db" where
  "save_payment user_id product_id invoice_id amount now d =
     d\<lparr>payments := payments d @
         [\<lparr>pay_id = payments_seq d + 1, pay_user_id = user_id, pay_product_id = product_id,
           pay_invoice_id = invoice_id, pay_amount = amount, pay_status = ''pending'',
           pay_created_at = now\<rparr>],
       payments_seq := payments_seq d + 1\<rparr>"

text \<open>\<open>UPDATE payments SET status = ? WHERE invoice_id = ?\<close>: no condition on the old status.\<close>

definition update_payment_status :: "string \<Rightarrow> string \<Rightarrow> db \<Rightarrow> db" where
  "update_payment_status invoice_id status d =
     d\<lparr>payments := map (\<lambda>r. if pay_invoice_id r = invoice_id then r\<lparr>pay_status := status\<rparr> else r)
                        (payments d)\<rparr>"

definition get_payment :: "db \<Rightarrow> string \<Rightarrow> payment_row option" where
  "get_payment d invoice_id = find (\<lambda>r. pay_invoice_id r = invoice_id) (payments d)"


section \<open>The Crypto Pay client\<close>

text \<open>
  The processor is outside the program, so what it answers is an input of the
  model. An HTTP exchange either fails in transport (aiohttp raises and the
  handler is left through the exception) or yields a status code and a JSON
  body, which is \<open>{"ok": true, "result": ...}\<close> or
  \<open>{"ok": false, "error": {"code": ..., "name": ...}}\<close>. Neither client
  function reads the status code or the error object.
\<close>

datatype exn = ClientError | TypeError | OperationalError

record invoice =
  inv_invoice_id :: int
  inv_status :: string
  inv_pay_url :: string

datatype 'a api_body = Ok_body 'a | Error_body int string

datatype 'a http_result = Transport_failure | Response nat "'a api_body"

text \<open>\<open>create_invoice\<close> returns \<open>result["result"]\<close> when \<open>ok\<close> is set and \<open>None\<close> otherwise.\<close>

fun create_invoice :: "invoice http_result \<Rightarrow> exn + invoice option" where
  "create_invoice Transport_failure = Inl ClientError"
| "create_invoice (Response code (Ok_body r)) = Inr (Some r)"
| "create_invoice (Response code (Error_body c n)) = Inr None"

text \<open>\<open>check_invoice\<close> returns the first item of a non-empty \<open>items\<close> list of an ok body.\<close>

fun check_invoice :: "invoice list http_result \<Rightarrow> exn + invoice option" where
  "check_invoice Transport_failure = Inl ClientError"
| "check_invoice (Response code (Ok_body [])) = Inr None"
| "check_invoice (Response code (Ok_body (item # items))) = Inr (Some item)"
| "check_invoice (Response code (Error_body c n)) = Inr None"

section \<open>The payment handlers\<close>

text \<open>
  What a handler shows is kept as data: the alert it answers with, or the
  messages it sends. The Russian texts are named by constructors.
  A handler left through an exception ends in \<open>Raised\<close>. Calls to the
  Telegram API are taken to succeed. A handler is given the id that follows
  the underscore in its callback data.
\<close>

datatype alert =
    Product_not_found
  | Invoice_creation_error
  | Payment_check_error
  | Product_already_given
  | Payment_not_found

datatype message =
    Payment_form string real string string
  | Text_product string "string option"
  | File_product string
  | Document int "string option"
  | Admin_notice int "string option" string real

datatype outcome = Alert alert | Sent "message list" | Raised exn

text \<open>Python's \<open>str\<close> on an integer, used for the invoice id the processor issues.\<close>

function str_nat :: "nat \<Rightarrow> string" where
  "str_nat n = (if n < 10 then [''0123456789'' ! n]
                else str_nat (n div 10) @ [''0123456789'' ! (n mod 10)])"
  by pat_completeness auto
termination
  by (relation "measure id") auto

declare str_nat.simps [simp del]

definition str_int :: "int \<Rightarrow> string" where
  "str_int i = (if i < 0 then CHR ''-'' # str_nat (nat (- i)) else str_nat (nat i))"

text \<open>
  \<open>cb_buy\<close>, for the callback data \<open>buy_<prod_id>\<close> pressed by \<open>from_user\<close>.
  The payment row stores the presser as the payment's user and the product's
  current price as its amount.
\<close>

definition cb_buy :: "tg_user \<Rightarrow> int \<Rightarrow> invoice http_result \<Rightarrow> timestamp \<Rightarrow> db \<Rightarrow> db \<times> outcome" where
  "cb_buy from_user prod_id reply now d =
     (case get_product d prod_id of
        None \<Rightarrow> (d, Alert Product_not_found)
      | Some product \<Rightarrow>
          (case create_invoice reply of
             Inl e \<Rightarrow> (d, Raised e)
           | Inr None \<Rightarrow> (d, Alert Invoice_creation_error)
           | Inr (Some invoice) \<Rightarrow>
               (save_payment (tg_id from_user) prod_id (str_int (inv_invoice_id invoice))
                  (p_price product) now d,
                Sent [Payment_form (p_name product) (p_price product) (inv_pay_url invoice)
                        (''check_'' @ str_int (inv_invoice_id invoice))])))"

text \<open>
  The messages of a successful check: the product goes into the message that
  carried the button (text products) or as a document to the presser (file
  products); then every admin is told, failures of that being swallowed.
\<close>

definition deliver :: "tg_user \<Rightarrow> product_row \<Rightarrow> message list" where
  "deliver from_user product =
     (if p_product_type product = ''text''
      then [Text_product (p_name product) (p_content product)]
      else [File_product (p_name product), Document (tg_id from_user) (p_file_id product)])"

definition notify_admins :: "int list \<Rightarrow> tg_user \<Rightarrow> product_row \<Rightarrow> payment_row \<Rightarrow> message list" where
  "notify_admins admin_ids from_user product payment =
     map (\<lambda>admin_id. Admin_notice admin_id (tg_username from_user) (p_name product)
                        (pay_amount payment)) admin_ids"

text \<open>
  \<open>cb_check_payment\<close>, for the callback data \<open>check_<invoice_id>\<close> pressed
  by \<open>from_user\<close>, run from start to end with nothing else in between. When
  the product row is gone, \<open>product['name']\<close> raises after the purchase has
  been recorded.
\<close>

definition cb_check_payment ::
  "int list \<Rightarrow> tg_user \<Rightarrow> string \<Rightarrow> invoice list http_result \<Rightarrow> timestamp \<Rightarrow> db \<Rightarrow> db \<times> outcome" where
  "cb_check_payment admin_ids from_user invoice_id reply now d =
     (case check_invoice reply of
        Inl e \<Rightarrow> (d, Raised e)
      | Inr None \<Rightarrow> (d, Alert Payment_check_error)
      | Inr (Some invoice) \<Rightarrow>
          if inv_status invoice = ''paid'' then
            (case get_payment d invoice_id of
               None \<Rightarrow> (d, Alert Product_already_given)
             | Some payment \<Rightarrow>
                 if pay_status payment = ''pending'' then
                   (let d1 = update_payment_status invoice_id ''paid'' d;
                        product = get_product d1 (pay_product_id payment);
                        d2 = add_purchase (tg_id from_user) (pay_product_id payment)
                               (pay_amount payment) now d1
                    in case product of
                         None \<Rightarrow> (d2, Raised TypeError)
                       | Some pr \<Rightarrow>
                           (d2, Sent (deliver from_user pr @
                                      notify_admins admin_ids from_user pr payment)))
                 else (d, Alert Product_already_given))
          else (d, Alert Payment_not_found))"


section \<open>The check handler step by step\<close>

text \<open>
  \<open>cb_check_payment\<close> is a coroutine: it gives up control at every
  \<open>await\<close>, and aiogram runs the handlers of several updates on one event
  loop. Between two of its database helpers another handler may run, so the
  handler is also given as a machine whose steps are its awaited calls, in
  source order: \<open>check_invoice\<close>, \<open>get_payment\<close>,
  \<open>update_payment_status\<close>, \<open>get_product\<close>, \<open>add_purchase\<close>. The
  sends after \<open>add_purchase\<close> touch no table and are folded into its step.

  A database helper may fail (\<open>storage_fails\<close>): SQLite raises, the helper's
  connection is closed without its commit, nothing of that helper is stored,
  and the handler, which catches nothing there, is left through the exception.
  The poll is no database helper; whether it fails is part of the reply.
\<close>

datatype pc =
    At_check_invoice
  | At_get_payment
  | At_update_payment_status payment_row
  | At_get_product payment_row
  | At_add_purchase payment_row "product_row option"
  | Finished outcome

fun step ::
  "int list \<Rightarrow> tg_user \<Rightarrow> string \<Rightarrow> invoice list http_result \<Rightarrow> timestamp \<Rightarrow>
   bool \<Rightarrow> db \<Rightarrow> pc \<Rightarrow> db \<times> pc" where
  "step admin_ids from_user invoice_id reply now storage_fails d At_check_invoice =
     (case check_invoice reply of
        Inl e \<Rightarrow> (d, Finished (Raised e))
      | Inr None \<Rightarrow> (d, Finished (Alert Payment_check_error))
      | Inr (Some invoice) \<Rightarrow>
          if inv_status invoice = ''paid'' then (d, At_get_payment)
          else (d, Finished (Alert Payment_not_found)))"
| "step admin_ids from_user invoice_id reply now storage_fails d At_get_payment =
     (if storage_fails then (d, Finished (Raised OperationalError))
      else case get_payment d invoice_id of
             None \<Rightarrow> (d, Finished (Alert Product_already_given))
           | Some payment \<Rightarrow>
               if pay_status payment = ''pending''
               then (d, At_update_payment_status payment)
               else (d, Finished (Alert Product_already_given)))"
| "step admin_ids from_user invoice_id reply now storage_fails d (At_update_payment_status payment) =
     (if storage_fails then (d, Finished (Raised OperationalError))
      else (update_payment_status invoice_id ''paid'' d, At_get_product payment))"
| "step admin_ids from_user invoice_id reply now storage_fails d (At_get_product payment) =
     (if storage_fails then (d, Finished (Raised OperationalError))
      else (d, At_add_purchase payment (get_product d (pay_product_id payment))))"
| "step admin_ids from_user invoice_id reply now storage_fails d (At_add_purchase payment product) =
     (if storage_fails then (d, Finished (Raised OperationalError))
      else (add_purchase (tg_id from_user) (pay_product_id payment) (pay_amount payment) now d,
            Finished (case product of
                        None \<Rightarrow> Raised TypeError
                      | Some pr \<Rightarrow> Sent (deliver from_user pr @
                                          notify_admins admin_ids from_user pr payment))))"
| "step admin_ids from_user invoice_id reply now storage_fails d (Finished out) =
     (d, Finished out)"

text \<open>One handler alone: a step per entry of the list, which says whether that step's helper fails.\<close>

fun run_steps ::
  "int list \<Rightarrow> tg_user \<Rightarrow> string \<Rightarrow> invoice list http_result \<Rightarrow> timestamp \<Rightarrow>
   bool list \<Rightarrow> db \<times> pc \<Rightarrow> db \<times> pc" where
  "run_steps admin_ids from_user invoice_id reply now [] c = c"
| "run_steps admin_ids from_user invoice_id reply now (f # fs) c =
     run_steps admin_ids from_user invoice_id reply now fs
       (step admin_ids from_user invoice_id reply now f (fst c) (snd c))"

text \<open>
  Several handlers on one event loop. A schedule names, step by step, the
  task that runs next and whether its helper fails; a number that names no
  task is skipped.
\<close>

record task =
  t_from_user :: tg_user
  t_invoice_id :: string
  t_reply :: "invoice list http_result"
  t_now :: timestamp
  t_pc :: pc

fun run_tasks :: "int list \<Rightarrow> (nat \<times> bool) list \<Rightarrow> db \<times> task list \<Rightarrow> db \<times> task list" where
  "run_tasks admin_ids [] c = c"
| "run_tasks admin_ids ((i, storage_fails) # sched) c =
     (if i < length (snd c)
      then (let t = snd c ! i;
                r = step admin_ids (t_from_user t) (t_invoice_id t) (t_reply t) (t_now t)
                      storage_fails (fst c) (t_pc t)
            in run_tasks admin_ids sched (fst r, (snd c)[i := t\<lparr>t_pc := snd r\<rparr>]))
      else run_tasks admin_ids sched c)"

section \<open>Properties of the ledgers\<close>

text \<open>The statuses of the payment rows filed under an invoice id.\<close>

definition statuses_of :: "db \<Rightarrow> string \<Rightarrow> string list" where
  "statuses_of d invoice_id =
     map pay_status (filter (\<lambda>r. pay_invoice_id r = invoice_id) (payments d))"

text \<open>No two payment rows share an invoice id.\<close>

definition invoice_ids_unique :: "db \<Rightarrow> bool" where
  "invoice_ids_unique d = distinct (map pay_invoice_id (payments d))"

text \<open>A user's purchase rows, and whether a user row's counters agree with them.\<close>

definition purchases_of :: "db \<Rightarrow> int \<Rightarrow> purchase_row list" where
  "purchases_of d uid = filter (\<lambda>p. pu_user_id p = uid) (purchases d)"

definition aggregate_matches :: "db \<Rightarrow> user_row \<Rightarrow> bool" where
  "aggregate_matches d u =
     (u_total_purchases u = int (length (purchases_of d (u_user_id u))) \<and>
      u_total_spent u = sum_list (map pu_price (purchases_of d (u_user_id u))))"

definition aggregates_ok :: "db \<Rightarrow> bool" where
  "aggregates_ok d = list_all (aggregate_matches d) (users d)"

text \<open>Every purchase row belongs to a user that has a row, as the schema's foreign key says.\<close>

definition purchasers_registered :: "db \<Rightarrow> bool" where
  "purchasers_registered d =
     list_all (\<lambda>p. find (\<lambda>u. u_user_id u = pu_user_id p) (users d) \<noteq> None) (purchases d)"

text \<open>The users' counters after one purchase by \<open>uid\<close> at price \<open>price\<close>.\<close>

definition bump_user :: "int \<Rightarrow> real \<Rightarrow> user_row \<Rightarrow> user_row" where
  "bump_user uid price u =
     (if u_user_id u = uid
      then u\<lparr>u_total_purchases := u_total_purchases u + 1,
             u_total_spent := u_total_spent u + price\<rparr>
      else u)"


section \<open>A small shop\<close>

text \<open>
  Concrete data for the examples below: Alice, who has started the bot and
  has a user row, and Bob, who has none; a shop with a text product (id 1,
  price 5) and a file product (id 2, price 7); the processor's answer to an
  invoice creation, and its answer to a status poll.
\<close>

definition alice :: tg_user where
  "alice = \<lparr>tg_id = 1, tg_username = Some ''alice'', tg_first_name = ''Alice''\<rparr>"

definition bob :: tg_user where
  "bob = \<lparr>tg_id = 2, tg_username = None, tg_first_name = ''Bob''\<rparr>"

definition shop :: db where
  "shop = add_product (Some 1) ''manual'' None 7 ''file'' None (Some ''F1'') ''t0''
            (add_product (Some 1) ''key'' None 5 ''text'' (Some ''secret'') None ''t0''
               (add_user alice ''t0'' init_db))"

definition issued :: "int \<Rightarrow> invoice http_result" where
  "issued n = Response 200 (Ok_body \<lparr>inv_invoice_id = n, inv_status = ''active'',
                                       inv_pay_url = ''url''\<rparr>)"

definition polled :: "int \<Rightarrow> string \<Rightarrow> invoice list http_result" where
  "polled n status = Response 200 (Ok_body [\<lparr>inv_invoice_id = n, inv_status = status,
                                               inv_pay_url = ''url''\<rparr>])"

text \<open>The shop after Alice has been given invoice 100 for the text product.\<close>

definition shop_pending :: db where
  "shop_pending = save_payment 1 1 ''100'' 5 ''t1'' shop"

text \<open>The same after a check has found invoice 100 paid and fulfilled it.\<close>

definition shop_paid :: db where
  "shop_paid = add_purchase 1 1 5 ''t2'' (update_payment_status ''100'' ''paid'' shop_pending)"

text \<open>A press of the check button for invoice 100 that the processor reports paid.\<close>

definition tap :: "tg_user \<Rightarrow> timestamp \<Rightarrow> task" where
  "tap u now = \<lparr>t_from_user = u, t_invoice_id = ''100'', t_reply = polled 100 ''paid'',
                 t_now = now, t_pc = At_check_invoice\<rparr>"

section \<open>Recording a payment\<close>

text \<open>A lookup in a table that has grown by one row.\<close>

lemma find_snoc:
  "find P (xs @ [x]) =
     (case find P xs of Some r \<Rightarrow> Some r | None \<Rightarrow> if P x then Some x else None)"
  by (induction xs) auto

text \<open>
  C5, as the code has it. \<open>save_payment\<close> has no duplicate check and the table
  no unique index: for every invoice id, also one already in the ledger, it
  reports nothing and appends one new pending row with the given fields; the
  rows that were there stay as they were, a lookup of an id that was there
  still returns the row it returned before, and the other tables are
  untouched.
\<close>

theorem save_payment_appends_row:
  "payments (save_payment user_id product_id invoice_id amount now d) =
     payments d @
       [\<lparr>pay_id = payments_seq d + 1, pay_user_id = user_id, pay_product_id = product_id,
         pay_invoice_id = invoice_id, pay_amount = amount, pay_status = ''pending'',
         pay_created_at = now\<rparr>] \<and>
   get_payment (save_payment user_id product_id invoice_id amount now d) i =
     (case get_payment d i of
        Some r \<Rightarrow> Some r
      | None \<Rightarrow>
          if i = invoice_id
          then Some \<lparr>pay_id = payments_seq d + 1, pay_user_id = user_id,
                      pay_product_id = product_id, pay_invoice_id = invoice_id,
                      pay_amount = amount, pay_status = ''pending'', pay_created_at = now\<rparr>
          else None) \<and>
   users (save_payment user_id product_id invoice_id amount now d) = users d \<and>
   products (save_payment user_id product_id invoice_id amount now d) = products d \<and>
   purchases (save_payment user_id product_id invoice_id amount now d) = purchases d"
  by (auto simp: save_payment_def get_payment_def find_snoc split: option.splits)

text \<open>
  C5 as stated fails: recording invoice id \<open>100\<close> a second time finds the
  first row in the ledger and still inserts a second row under the same id.
\<close>

theorem save_payment_duplicate_counterexample:
  "get_payment (save_payment 1 1 ''100'' 5 ''t0'' init_db) ''100'' \<noteq> None \<and>
   map pay_invoice_id
     (payments (save_payment 2 1 ''100'' 5 ''t1'' (save_payment 1 1 ''100'' 5 ''t0'' init_db)))
   = [''100'', ''100'']"
  by (simp add: save_payment_def init_db_def get_payment_def)


section \<open>Uniqueness of invoice ids\<close>

text \<open>The helpers other than \<open>save_payment\<close> leave the invoice ids of the ledger as they are.\<close>

lemma invoice_ids_of_status_update:
  "map pay_invoice_id (map (\<lambda>r. if pay_invoice_id r = i then r\<lparr>pay_status := s\<rparr> else r) xs)
   = map pay_invoice_id xs"
  by (induction xs) auto

lemma invoice_ids_update_payment_status:
  "map pay_invoice_id (payments (update_payment_status i s d)) = map pay_invoice_id (payments d)"
  using invoice_ids_of_status_update[of i s "payments d"]
  by (simp add: update_payment_status_def)

lemma payments_add_purchase: "payments (add_purchase u p a n d) = payments d"
  by (simp add: add_purchase_def)

lemma invoice_ids_check:
  "map pay_invoice_id (payments (fst (cb_check_payment admin_ids from_user invoice_id reply now d)))
   = map pay_invoice_id (payments d)"
  by (simp add: cb_check_payment_def Let_def payments_add_purchase
        invoice_ids_update_payment_status split: sum.splits option.splits)

text \<open>
  C6, as the code has it. The ledger has no unique index and checks nothing,
  so uniqueness rests on the ids that are recorded: when no two payment rows
  share an invoice id, \<open>save_payment\<close> with an id that is not in the ledger
  keeps it so, and so does \<open>cb_buy\<close> when the id the processor issued is not
  in the ledger; \<open>update_payment_status\<close>, \<open>add_purchase\<close>,
  \<open>cb_check_payment\<close>, \<open>add_user\<close> and \<open>delete_product\<close> keep it so
  always.
\<close>

theorem invoice_ids_unique_preserved:
  "invoice_ids_unique d \<Longrightarrow>
   (invoice_id \<notin> set (map pay_invoice_id (payments d)) \<longrightarrow>
      invoice_ids_unique (save_payment user_id product_id invoice_id amount now d)) \<and>
   ((\<forall>invoice. create_invoice buy_reply = Inr (Some invoice) \<longrightarrow>
        str_int (inv_invoice_id invoice) \<notin> set (map pay_invoice_id (payments d))) \<longrightarrow>
      invoice_ids_unique (fst (cb_buy from_user product_id buy_reply now d))) \<and>
   invoice_ids_unique (update_payment_status i s d) \<and>
   invoice_ids_unique (add_purchase u p a now d) \<and>
   invoice_ids_unique (fst (cb_check_payment admin_ids from_user i reply now d)) \<and>
   invoice_ids_unique (add_user from_user now d) \<and>
   invoice_ids_unique (delete_product p d)"
proof (intro conjI impI)
  assume u: "invoice_ids_unique d"
  show "invoice_ids_unique (update_payment_status i s d)"
    using u by (simp only: invoice_ids_unique_def invoice_ids_update_payment_status)
  show "invoice_ids_unique (add_purchase u p a now d)"
    using u by (simp add: invoice_ids_unique_def payments_add_purchase)
  show "invoice_ids_unique (fst (cb_check_payment admin_ids from_user i reply now d))"
    using u by (simp only: invoice_ids_unique_def invoice_ids_check)
  show "invoice_ids_unique (add_user from_user now d)"
    using u by (simp add: invoice_ids_unique_def add_user_def split: option.splits)
  show "invoice_ids_unique (delete_product p d)"
    using u by (simp add: invoice_ids_unique_def delete_product_def)
  {
    assume "invoice_id \<notin> set (map pay_invoice_id (payments d))"
    then show "invoice_ids_unique (save_payment user_id product_id invoice_id amount now d)"
      using u by (simp add: invoice_ids_unique_def save_payment_def)
  }
  {
    assume fresh: "\<forall>invoice. create_invoice buy_reply = Inr (Some invoice) \<longrightarrow>
        str_int (inv_invoice_id invoice) \<notin> set (map pay_invoice_id (payments d))"
    show "invoice_ids_unique (fst (cb_buy from_user product_id buy_reply now d))"
      using u fresh
      by (auto simp: cb_buy_def invoice_ids_unique_def save_payment_def
            split: sum.splits option.splits)
  }
qed

theorem invoice_ids_unique_preserved_witness:
  "invoice_ids_unique (save_payment 1 1 ''100'' 5 ''t0''
       (add_product (Some 1) ''key'' None 5 ''text'' (Some ''secret'') None ''t'' init_db)) \<and>
   ''101'' \<notin> set (map pay_invoice_id (payments (save_payment 1 1 ''100'' 5 ''t0''
       (add_product (Some 1) ''key'' None 5 ''text'' (Some ''secret'') None ''t'' init_db)))) \<and>
   invoice_ids_unique (save_payment 2 1 ''101'' 5 ''t1'' (save_payment 1 1 ''100'' 5 ''t0''
       (add_product (Some 1) ''key'' None 5 ''text'' (Some ''secret'') None ''t'' init_db))) \<and>
   create_invoice (Response 200 (Ok_body \<lparr>inv_invoice_id = 101, inv_status = ''active'', inv_pay_url = ''u''\<rparr>))
     = Inr (Some \<lparr>inv_invoice_id = 101, inv_status = ''active'', inv_pay_url = ''u''\<rparr>) \<and>
   str_int 101 \<notin> set (map pay_invoice_id (payments (save_payment 1 1 ''100'' 5 ''t0''
       (add_product (Some 1) ''key'' None 5 ''text'' (Some ''secret'') None ''t'' init_db)))) \<and>
   invoice_ids_unique (fst (cb_buy \<lparr>tg_id = 2, tg_username = None, tg_first_name = ''B''\<rparr> 1
       (Response 200 (Ok_body \<lparr>inv_invoice_id = 101, inv_status = ''active'', inv_pay_url = ''u''\<rparr>))
       ''t1'' (save_payment 1 1 ''100'' 5 ''t0''
       (add_product (Some 1) ''key'' None 5 ''text'' (Some ''secret'') None ''t'' init_db))))"
proof -
  let ?d = "save_payment 1 1 ''100'' 5 ''t0''
       (add_product (Some 1) ''key'' None 5 ''text'' (Some ''secret'') None ''t'' init_db)"
  have s: "str_int 101 = ''101''" by (simp add: str_int_def str_nat.simps)
  have h: "invoice_ids_unique ?d"
    by (simp add: invoice_ids_unique_def save_payment_def add_product_def init_db_def)
  have f: "''101'' \<notin> set (map pay_invoice_id (payments ?d))"
    by (simp add: save_payment_def add_product_def init_db_def)
  show ?thesis
    using h f s invoice_ids_unique_preserved [OF h, of "''101''" 2 1 5 "''t1''"
        "Response 200 (Ok_body \<lparr>inv_invoice_id = 101, inv_status = ''active'', inv_pay_url = ''u''\<rparr>)"
        "\<lparr>tg_id = 2, tg_username = None, tg_first_name = ''B''\<rparr>"]
    by simp
qed

text \<open>
  C6 as stated fails: when the processor's reply carries invoice id 100 for
  two purchases, \<open>cb_buy\<close> records both, and two payment rows share the id.
\<close>

theorem invoice_ids_unique_counterexample:
  "\<not> invoice_ids_unique
      (fst (cb_buy \<lparr>tg_id = 2, tg_username = None, tg_first_name = ''B''\<rparr> 1
         (Response 200 (Ok_body \<lparr>inv_invoice_id = 100, inv_status = ''active'', inv_pay_url = ''u''\<rparr>))
         ''t1''
         (fst (cb_buy \<lparr>tg_id = 1, tg_username = None, tg_first_name = ''A''\<rparr> 1
            (Response 200 (Ok_body \<lparr>inv_invoice_id = 100, inv_status = ''active'', inv_pay_url = ''u''\<rparr>))
            ''t0''
            (add_product (Some 1) ''key'' None 5 ''text'' (Some ''secret'') None ''t'' init_db)))))"
  by (simp add: cb_buy_def get_product_def add_product_def init_db_def save_payment_def
        invoice_ids_unique_def)

section \<open>Checking a payment\<close>

lemmas shop_defs = shop_def add_product_def add_user_def init_db_def shop_pending_def
  shop_paid_def save_payment_def update_payment_status_def add_purchase_def alice_def bob_def
  issued_def polled_def

text \<open>
  C2. When the ledger's payment for the invoice id is already paid, a check
  changes nothing in the database and sends no message, whatever the
  processor answers; when the processor reports the invoice paid, the check
  answers that the product has already been given.
\<close>

theorem check_after_paid_changes_nothing:
  "get_payment d invoice_id = Some payment \<Longrightarrow> pay_status payment = ''paid'' \<Longrightarrow>
   fst (cb_check_payment admin_ids from_user invoice_id reply now d) = d \<and>
   (\<forall>ms. snd (cb_check_payment admin_ids from_user invoice_id reply now d) \<noteq> Sent ms) \<and>
   ((\<exists>invoice. check_invoice reply = Inr (Some invoice) \<and> inv_status invoice = ''paid'') \<longrightarrow>
      cb_check_payment admin_ids from_user invoice_id reply now d = (d, Alert Product_already_given))"
  by (auto simp: cb_check_payment_def split: sum.splits option.splits)

theorem check_after_paid_changes_nothing_witness:
  "get_payment shop_paid ''100'' =
     Some \<lparr>pay_id = 1, pay_user_id = 1, pay_product_id = 1, pay_invoice_id = ''100'',
            pay_amount = 5, pay_status = ''paid'', pay_created_at = ''t1''\<rparr> \<and>
   check_invoice (polled 100 ''paid'') =
     Inr (Some \<lparr>inv_invoice_id = 100, inv_status = ''paid'', inv_pay_url = ''url''\<rparr>) \<and>
   cb_check_payment [9] alice ''100'' (polled 100 ''paid'') ''t3'' shop_paid =
     (shop_paid, Alert Product_already_given) \<and>
   length (purchases (fst (cb_check_payment [9] alice ''100'' (polled 100 ''paid'') ''t3'' shop_paid))) = 1"
proof -
  have g: "get_payment shop_paid ''100'' =
     Some \<lparr>pay_id = 1, pay_user_id = 1, pay_product_id = 1, pay_invoice_id = ''100'',
            pay_amount = 5, pay_status = ''paid'', pay_created_at = ''t1''\<rparr>"
    by (simp add: get_payment_def shop_defs)
  have c: "check_invoice (polled 100 ''paid'') =
     Inr (Some \<lparr>inv_invoice_id = 100, inv_status = ''paid'', inv_pay_url = ''url''\<rparr>)"
    by (simp add: polled_def)
  have l: "length (purchases shop_paid) = 1" by (simp add: shop_defs)
  show ?thesis
    using g c l check_after_paid_changes_nothing [OF g, of "[9]" alice "polled 100 ''paid''" "''t3''"]
    by simp
qed

text \<open>
  C8. When the poll fails or reports a status other than paid, the check
  leaves the whole database as it was, payments, purchases and users alike,
  and ends without fulfilment: with the check-error alert when the client
  returns nothing, with the not-found-try-later alert when the invoice is not
  paid, and through the client's exception when the transport fails.
\<close>

theorem check_not_paid_changes_nothing:
  "\<not> (\<exists>invoice. check_invoice reply = Inr (Some invoice) \<and> inv_status invoice = ''paid'') \<Longrightarrow>
   fst (cb_check_payment admin_ids from_user invoice_id reply now d) = d \<and>
   snd (cb_check_payment admin_ids from_user invoice_id reply now d) =
     (case check_invoice reply of
        Inl e \<Rightarrow> Raised e
      | Inr None \<Rightarrow> Alert Payment_check_error
      | Inr (Some invoice) \<Rightarrow> Alert Payment_not_found)"
  by (auto simp: cb_check_payment_def split: sum.splits option.splits)

theorem check_not_paid_changes_nothing_witness:
  "cb_check_payment [9] alice ''100'' (polled 100 ''expired'') ''t3'' shop_pending =
     (shop_pending, Alert Payment_not_found) \<and>
   cb_check_payment [9] alice ''100'' (Response 503 (Error_body 503 ''UNAVAILABLE'')) ''t3'' shop_pending =
     (shop_pending, Alert Payment_check_error) \<and>
   cb_check_payment [9] alice ''100'' (polled 100 ''active'') ''t3'' shop_pending =
     (shop_pending, Alert Payment_not_found) \<and>
   cb_check_payment [9] alice ''100'' Transport_failure ''t3'' shop_pending =
     (shop_pending, Raised ClientError)"
proof -
  have a: "\<not> (\<exists>invoice. check_invoice (polled 100 ''expired'') = Inr (Some invoice) \<and>
             inv_status invoice = ''paid'')"
    by (simp add: polled_def)
  have b: "\<not> (\<exists>invoice. check_invoice (Response 503 (Error_body 503 ''UNAVAILABLE'')) =
             Inr (Some invoice) \<and> inv_status invoice = ''paid'')"
    by simp
  have c: "\<not> (\<exists>invoice. check_invoice (polled 100 ''active'') = Inr (Some invoice) \<and>
             inv_status invoice = ''paid'')"
    by (simp add: polled_def)
  have e: "\<not> (\<exists>invoice. check_invoice Transport_failure = Inr (Some invoice) \<and>
             inv_status invoice = ''paid'')"
    by simp
  show ?thesis
    using check_not_paid_changes_nothing [OF a, of "[9]" alice "''100''" "''t3''" shop_pending]
      check_not_paid_changes_nothing [OF b, of "[9]" alice "''100''" "''t3''" shop_pending]
      check_not_paid_changes_nothing [OF c, of "[9]" alice "''100''" "''t3''" shop_pending]
      check_not_paid_changes_nothing [OF e, of "[9]" alice "''100''" "''t3''" shop_pending]
    by (simp add: prod_eq_iff polled_def)
qed

section \<open>Fulfilment\<close>

text \<open>
  A check that finds the invoice paid at the processor and the payment
  pending in the ledger: what it stores and what it returns.
\<close>

lemma find_map_same_key:
  "(\<And>x. key (f x) = key x) \<Longrightarrow>
   find (\<lambda>x. key x = k) (map f xs) = map_option f (find (\<lambda>x. key x = k) xs)"
  by (induction xs) auto

lemma get_product_delete_product:
  "get_product (delete_product q d) product_id =
     map_option (\<lambda>p. if p_id p = q then p\<lparr>p_is_active := 0\<rparr> else p) (get_product d product_id)"
  unfolding get_product_def delete_product_def
  using find_map_same_key[of p_id "\<lambda>p. if p_id p = q then p\<lparr>p_is_active := 0\<rparr> else p" product_id "products d"]
  by simp

lemma listing_delete_product:
  "get_products_by_category (delete_product q d) c =
     filter (\<lambda>p. p_id p \<noteq> q) (get_products_by_category d c)"
proof -
  have "filter (\<lambda>p. p_category_id p = Some c \<and> p_is_active p = 1)
          (map (\<lambda>p. if p_id p = q then p\<lparr>p_is_active := 0\<rparr> else p) xs) =
        filter (\<lambda>p. p_id p \<noteq> q) (filter (\<lambda>p. p_category_id p = Some c \<and> p_is_active p = 1) xs)"
    for xs
    by (induction xs) auto
  then show ?thesis by (simp add: get_products_by_category_def delete_product_def)
qed

lemma get_payment_delete_product: "get_payment (delete_product q d) i = get_payment d i"
  by (simp add: get_payment_def delete_product_def)

lemma get_product_update_payment_status:
  "get_product (update_payment_status i s d) p = get_product d p"
  by (simp add: get_product_def update_payment_status_def)

lemma deliver_inactive: "deliver u (pr\<lparr>p_is_active := a\<rparr>) = deliver u pr"
  by (simp add: deliver_def)

lemma notify_inactive: "notify_admins as u (pr\<lparr>p_is_active := a\<rparr>) pay = notify_admins as u pr pay"
  by (simp add: notify_admins_def)

lemma check_wins:
  assumes "get_payment d invoice_id = Some payment" "pay_status payment = ''pending''"
    "check_invoice reply = Inr (Some invoice)" "inv_status invoice = ''paid''"
  shows "cb_check_payment admin_ids from_user invoice_id reply now d =
     (add_purchase (tg_id from_user) (pay_product_id payment) (pay_amount payment) now
        (update_payment_status invoice_id ''paid'' d),
      case get_product d (pay_product_id payment) of
        None \<Rightarrow> Raised TypeError
      | Some pr \<Rightarrow> Sent (deliver from_user pr @ notify_admins admin_ids from_user pr payment))"
  using assms
  by (simp add: cb_check_payment_def Let_def get_product_update_payment_status split: option.splits)

text \<open>
  C10. \<open>get_product\<close> selects by id alone, so it returns a product that
  \<open>delete_product\<close> has deactivated, with only the active flag changed;
  \<open>delete_product\<close> touches no payment, purchase or user; the deactivated
  product leaves the category listing and nothing else leaves it; and a later
  check of a pending payment for that product, once the processor reports the
  invoice paid, records the purchase and sends the product's content as if it
  were still active.
\<close>

theorem deactivated_product_still_delivered:
  "get_product d product_id = Some product \<Longrightarrow>
   get_product (delete_product product_id d) product_id = Some (product\<lparr>p_is_active := 0\<rparr>) \<and>
   get_products_by_category (delete_product product_id d) c =
     filter (\<lambda>p. p_id p \<noteq> product_id) (get_products_by_category d c) \<and>
   payments (delete_product product_id d) = payments d \<and>
   purchases (delete_product product_id d) = purchases d \<and>
   users (delete_product product_id d) = users d \<and>
   (get_payment d invoice_id = Some payment \<and> pay_status payment = ''pending'' \<and>
    pay_product_id payment = product_id \<and>
    check_invoice reply = Inr (Some invoice) \<and> inv_status invoice = ''paid'' \<longrightarrow>
      cb_check_payment admin_ids from_user invoice_id reply now (delete_product product_id d) =
        (add_purchase (tg_id from_user) product_id (pay_amount payment) now
           (update_payment_status invoice_id ''paid'' (delete_product product_id d)),
         Sent (deliver from_user product @ notify_admins admin_ids from_user product payment)))"
proof (intro conjI impI)
  assume g: "get_product d product_id = Some product"
  then have pid: "p_id product = product_id"
    by (auto simp: get_product_def dest: find_Some_iff[THEN iffD1])
  show g': "get_product (delete_product product_id d) product_id = Some (product\<lparr>p_is_active := 0\<rparr>)"
    using g pid by (simp add: get_product_delete_product)
  show "get_products_by_category (delete_product product_id d) c =
     filter (\<lambda>p. p_id p \<noteq> product_id) (get_products_by_category d c)"
    by (rule listing_delete_product)
  show "payments (delete_product product_id d) = payments d"
    "purchases (delete_product product_id d) = purchases d"
    "users (delete_product product_id d) = users d"
    by (simp_all add: delete_product_def)
  assume a: "get_payment d invoice_id = Some payment \<and> pay_status payment = ''pending'' \<and>
    pay_product_id payment = product_id \<and>
    check_invoice reply = Inr (Some invoice) \<and> inv_status invoice = ''paid''"
  then have "get_payment (delete_product product_id d) invoice_id = Some payment"
    by (simp add: get_payment_delete_product)
  from check_wins[OF this, of reply invoice admin_ids from_user now] a g'
  show "cb_check_payment admin_ids from_user invoice_id reply now (delete_product product_id d) =
        (add_purchase (tg_id from_user) product_id (pay_amount payment) now
           (update_payment_status invoice_id ''paid'' (delete_product product_id d)),
         Sent (deliver from_user product @ notify_admins admin_ids from_user product payment))"
    by (simp add: deliver_inactive notify_inactive)
qed


theorem deactivated_product_still_delivered_witness:
  "get_product shop_pending 1 =
     Some \<lparr>p_id = 1, p_category_id = Some 1, p_name = ''key'', p_description = None,
            p_price = 5, p_product_type = ''text'', p_content = Some ''secret'',
            p_file_id = None, p_is_active = 1, p_created_at = ''t0''\<rparr> \<and>
   get_product (delete_product 1 shop_pending) 1 =
     Some \<lparr>p_id = 1, p_category_id = Some 1, p_name = ''key'', p_description = None,
            p_price = 5, p_product_type = ''text'', p_content = Some ''secret'',
            p_file_id = None, p_is_active = 0, p_created_at = ''t0''\<rparr> \<and>
   map p_id (get_products_by_category shop_pending 1) = [1, 2] \<and>
   map p_id (get_products_by_category (delete_product 1 shop_pending) 1) = [2] \<and>
   snd (cb_check_payment [9] alice ''100'' (polled 100 ''paid'') ''t3''
          (delete_product 1 shop_pending)) =
     Sent [Text_product ''key'' (Some ''secret''), Admin_notice 9 (Some ''alice'') ''key'' 5] \<and>
   map pu_product_id (purchases (fst (cb_check_payment [9] alice ''100'' (polled 100 ''paid'') ''t3''
          (delete_product 1 shop_pending)))) = [1]"
proof -
  have g: "get_product shop_pending 1 =
     Some \<lparr>p_id = 1, p_category_id = Some 1, p_name = ''key'', p_description = None,
            p_price = 5, p_product_type = ''text'', p_content = Some ''secret'',
            p_file_id = None, p_is_active = 1, p_created_at = ''t0''\<rparr>"
    by (simp add: get_product_def shop_defs)
  have p: "get_payment shop_pending ''100'' =
     Some \<lparr>pay_id = 1, pay_user_id = 1, pay_product_id = 1, pay_invoice_id = ''100'',
            pay_amount = 5, pay_status = ''pending'', pay_created_at = ''t1''\<rparr>"
    by (simp add: get_payment_def shop_defs)
  have c: "check_invoice (polled 100 ''paid'') =
     Inr (Some \<lparr>inv_invoice_id = 100, inv_status = ''paid'', inv_pay_url = ''url''\<rparr>)"
    by (simp add: polled_def)
  have l: "map p_id (get_products_by_category shop_pending 1) = [1, 2]"
    by (simp add: get_products_by_category_def shop_defs)
  have l': "map p_id (filter (\<lambda>p. p_id p \<noteq> 1) (get_products_by_category shop_pending 1)) = [2]"
    by (simp add: get_products_by_category_def shop_defs)
  have e: "purchases (update_payment_status ''100'' ''paid'' (delete_product 1 shop_pending)) = []"
    by (simp add: delete_product_def shop_defs)
  show ?thesis
    using g p c l l' e deactivated_product_still_delivered [OF g, of 1 "''100''"
        "\<lparr>pay_id = 1, pay_user_id = 1, pay_product_id = 1, pay_invoice_id = ''100'',
            pay_amount = 5, pay_status = ''pending'', pay_created_at = ''t1''\<rparr>"
        "polled 100 ''paid''"
        "\<lparr>inv_invoice_id = 100, inv_status = ''paid'', inv_pay_url = ''url''\<rparr>"
        "[9]" alice "''t3''"]
    by (simp add: deliver_def notify_admins_def alice_def add_purchase_def)
qed

text \<open>
  C4, as the code has it. A winning check never reads the payment's user id.
  The purchase row it appends carries the id of the user who pressed the
  check button, with the payment's product id and amount; the product goes
  into the message that held the button or, for a file, as a document to the
  presser. These are the payment's user when the presser is the buyer.
\<close>

theorem winning_check_records_requester:
  "get_payment d invoice_id = Some payment \<Longrightarrow> pay_status payment = ''pending'' \<Longrightarrow>
   check_invoice reply = Inr (Some invoice) \<Longrightarrow> inv_status invoice = ''paid'' \<Longrightarrow>
   purchases (fst (cb_check_payment admin_ids from_user invoice_id reply now d)) =
     purchases d @
       [\<lparr>pu_id = purchases_seq d + 1, pu_user_id = tg_id from_user,
         pu_product_id = pay_product_id payment, pu_price = pay_amount payment,
         pu_purchased_at = now\<rparr>] \<and>
   (\<forall>product. get_product d (pay_product_id payment) = Some product \<longrightarrow>
      snd (cb_check_payment admin_ids from_user invoice_id reply now d) =
        Sent ((if p_product_type product = ''text''
               then [Text_product (p_name product) (p_content product)]
               else [File_product (p_name product),
                     Document (tg_id from_user) (p_file_id product)]) @
              notify_admins admin_ids from_user product payment)) \<and>
   (tg_id from_user = pay_user_id payment \<longrightarrow>
      map pu_user_id (purchases (fst (cb_check_payment admin_ids from_user invoice_id reply now d))) =
        map pu_user_id (purchases d) @ [pay_user_id payment])"
proof -
  assume a: "get_payment d invoice_id = Some payment" "pay_status payment = ''pending''"
    "check_invoice reply = Inr (Some invoice)" "inv_status invoice = ''paid''"
  note w = check_wins[OF a, of admin_ids from_user now]
  show ?thesis
    by (simp add: w add_purchase_def update_payment_status_def deliver_def)
qed

theorem winning_check_records_requester_witness:
  "get_payment shop_pending ''100'' =
     Some \<lparr>pay_id = 1, pay_user_id = 1, pay_product_id = 1, pay_invoice_id = ''100'',
            pay_amount = 5, pay_status = ''pending'', pay_created_at = ''t1''\<rparr> \<and>
   check_invoice (polled 100 ''paid'') =
     Inr (Some \<lparr>inv_invoice_id = 100, inv_status = ''paid'', inv_pay_url = ''url''\<rparr>) \<and>
   purchases (fst (cb_check_payment [9] alice ''100'' (polled 100 ''paid'') ''t3'' shop_pending)) =
     [\<lparr>pu_id = 1, pu_user_id = 1, pu_product_id = 1, pu_price = 5, pu_purchased_at = ''t3''\<rparr>] \<and>
   snd (cb_check_payment [9] alice ''100'' (polled 100 ''paid'') ''t3'' shop_pending) =
     Sent [Text_product ''key'' (Some ''secret''), Admin_notice 9 (Some ''alice'') ''key'' 5]"
proof -
  have p: "get_payment shop_pending ''100'' =
     Some \<lparr>pay_id = 1, pay_user_id = 1, pay_product_id = 1, pay_invoice_id = ''100'',
            pay_amount = 5, pay_status = ''pending'', pay_created_at = ''t1''\<rparr>"
    by (simp add: get_payment_def shop_defs)
  have s: "pay_status \<lparr>pay_id = 1, pay_user_id = 1, pay_product_id = 1, pay_invoice_id = ''100'',
            pay_amount = 5, pay_status = ''pending'', pay_created_at = ''t1''\<rparr> = ''pending''"
    by simp
  have c: "check_invoice (polled 100 ''paid'') =
     Inr (Some \<lparr>inv_invoice_id = 100, inv_status = ''paid'', inv_pay_url = ''url''\<rparr>)"
    by (simp add: polled_def)
  have i: "inv_status \<lparr>inv_invoice_id = 100, inv_status = ''paid'', inv_pay_url = ''url''\<rparr> = ''paid''"
    by simp
  have g: "get_product shop_pending 1 =
     Some \<lparr>p_id = 1, p_category_id = Some 1, p_name = ''key'', p_description = None,
            p_price = 5, p_product_type = ''text'', p_content = Some ''secret'',
            p_file_id = None, p_is_active = 1, p_created_at = ''t0''\<rparr>"
    by (simp add: get_product_def shop_defs)
  have e: "purchases shop_pending = [] \<and> purchases_seq shop_pending = 0"
    by (simp add: shop_defs)
  show ?thesis
    using p c g e winning_check_records_requester [OF p s c i, of "[9]" alice "''t3''"]
    by (simp add: notify_admins_def alice_def)
qed

text \<open>
  C4 as stated fails when another user presses the button: Alice (user 1)
  holds the pending payment for the file product, Bob (user 2) checks it, and
  the purchase row and the document go to user 2.
\<close>

theorem requester_not_buyer_counterexample:
  "map pay_user_id (payments (save_payment 1 2 ''200'' 7 ''t1'' shop)) = [1] \<and>
   map pu_user_id (purchases (fst (cb_check_payment [9] bob ''200'' (polled 200 ''paid'') ''t3''
      (save_payment 1 2 ''200'' 7 ''t1'' shop)))) = [2] \<and>
   snd (cb_check_payment [9] bob ''200'' (polled 200 ''paid'') ''t3''
      (save_payment 1 2 ''200'' 7 ''t1'' shop)) =
     Sent [File_product ''manual'', Document 2 (Some ''F1''), Admin_notice 9 None ''manual'' 7]"
  by (simp add: cb_check_payment_def get_payment_def get_product_def deliver_def
        notify_admins_def shop_defs)

section \<open>Creating an invoice\<close>

text \<open>
  C9, as the code has it. \<open>create_invoice\<close> reads only the \<open>ok\<close> flag:
  every body that is not ok, whatever its status code and error object, gives
  the one result \<open>None\<close>, an ok body gives its result, and a transport
  failure is raised, not returned. \<open>cb_buy\<close> answers every \<open>None\<close>
  with the same alert and records no payment.
\<close>

theorem create_invoice_one_failure_result:
  "create_invoice (Response code (Error_body c n)) = Inr None \<and>
   create_invoice (Response code (Ok_body r)) = Inr (Some r) \<and>
   create_invoice Transport_failure = Inl ClientError \<and>
   (get_product d prod_id \<noteq> None \<longrightarrow>
      cb_buy from_user prod_id (Response code (Error_body c n)) now d =
        (d, Alert Invoice_creation_error))"
  by (auto simp: cb_buy_def)

theorem create_invoice_one_failure_result_witness:
  "get_product shop 1 \<noteq> None \<and>
   cb_buy alice 1 (Response 400 (Error_body 400 ''AMOUNT_INVALID'')) ''t1'' shop =
     (shop, Alert Invoice_creation_error)"
proof -
  have g: "get_product shop 1 \<noteq> None" by (simp add: get_product_def shop_defs)
  show ?thesis
    using g create_invoice_one_failure_result [of 400 400 "''AMOUNT_INVALID''" _ shop 1 alice "''t1''"]
    by simp
qed

text \<open>
  C9 as stated fails: an unavailable processor (503) and a rejected amount
  (400) give the same result and the same answer to the user.
\<close>

theorem create_invoice_failures_collapse_counterexample:
  "create_invoice (Response 503 (Error_body 503 ''SERVICE_UNAVAILABLE'')) = Inr None \<and>
   create_invoice (Response 400 (Error_body 400 ''AMOUNT_INVALID'')) = Inr None \<and>
   cb_buy alice 1 (Response 503 (Error_body 503 ''SERVICE_UNAVAILABLE'')) ''t1'' shop =
     (shop, Alert Invoice_creation_error) \<and>
   cb_buy alice 1 (Response 400 (Error_body 400 ''AMOUNT_INVALID'')) ''t1'' shop =
     (shop, Alert Invoice_creation_error)"
  by (simp add: cb_buy_def get_product_def shop_defs)

section \<open>The users' counters\<close>

text \<open>
  What \<open>add_purchase\<close> does keep: the counters of every user row agree with
  that user's purchase rows after it if they did before. \<open>add_user\<close> keeps
  the agreement when every purchase row belongs to a user that has a row.
\<close>

lemma purchases_of_add_purchase:
  "purchases_of (add_purchase uid pid price now d) v =
     purchases_of d v @
       (if v = uid then [\<lparr>pu_id = purchases_seq d + 1, pu_user_id = uid, pu_product_id = pid,
                            pu_price = price, pu_purchased_at = now\<rparr>] else [])"
  by (simp add: purchases_of_def add_purchase_def)

lemma users_add_purchase:
  "users (add_purchase uid pid price now d) = map (bump_user uid price) (users d)"
  by (simp add: add_purchase_def bump_user_def)

lemma aggregate_matches_bump:
  "aggregate_matches d u \<Longrightarrow>
   aggregate_matches (add_purchase uid pid price now d) (bump_user uid price u)"
  by (simp add: aggregate_matches_def purchases_of_add_purchase bump_user_def)

lemma add_purchase_keeps_aggregates:
  "aggregates_ok d \<Longrightarrow> aggregates_ok (add_purchase uid pid price now d)"
  by (simp add: aggregates_ok_def users_add_purchase list_all_iff aggregate_matches_bump)

lemma aggregate_matches_other_tables:
  "purchases d' = purchases d \<Longrightarrow> aggregate_matches d' u = aggregate_matches d u"
  by (simp add: aggregate_matches_def purchases_of_def)

lemma no_purchases_of_unregistered:
  "purchasers_registered d \<Longrightarrow> find (\<lambda>r. u_user_id r = uid) (users d) = None \<Longrightarrow>
   purchases_of d uid = []"
  by (auto simp: purchasers_registered_def purchases_of_def list_all_iff filter_empty_conv)

lemma add_user_keeps_aggregates:
  "aggregates_ok d \<Longrightarrow> purchasers_registered d \<Longrightarrow> aggregates_ok (add_user user now d)"
proof (cases "find (\<lambda>r. u_user_id r = tg_id user) (users d)")
  case None
  assume a: "aggregates_ok d" and r: "purchasers_registered d"
  have p: "purchases (add_user user now d) = purchases d"
    by (simp add: add_user_def split: option.splits)
  have e: "purchases_of d (tg_id user) = []"
    using no_purchases_of_unregistered[OF r None] .
  show ?thesis
    using a None e
    by (simp add: aggregates_ok_def add_user_def list_all_iff aggregate_matches_def purchases_of_def)
next
  case (Some r)
  assume "aggregates_ok d"
  then show ?thesis using Some by (simp add: add_user_def)
qed

text \<open>
  C7 fails on the code. \<open>add_purchase\<close> updates the counters \<open>WHERE user_id = ?\<close>,
  which matches no row for a user who has none, and the purchase row is
  inserted all the same, the foreign key of \<open>purchases.user_id\<close> being
  unenforced. Bob, who has no user row, buys the text product and checks the
  paid invoice: a purchase row for user 2 exists and no counters do. When he
  then sends \<open>/start\<close>, his row is created with zero purchases and zero spent
  against one purchase row of price 5.
\<close>

theorem unregistered_buyer_breaks_aggregate:
  "get_user (fst (cb_check_payment [9] bob ''300'' (polled 300 ''paid'') ''t2''
               (fst (cb_buy bob 1 (issued 300) ''t1'' shop)))) 2 = None \<and>
   map pu_user_id (purchases (fst (cb_check_payment [9] bob ''300'' (polled 300 ''paid'') ''t2''
               (fst (cb_buy bob 1 (issued 300) ''t1'' shop))))) = [2] \<and>
   map u_total_purchases (users (add_user bob ''t3''
      (fst (cb_check_payment [9] bob ''300'' (polled 300 ''paid'') ''t2''
         (fst (cb_buy bob 1 (issued 300) ''t1'' shop)))))) = [0, 0] \<and>
   length (purchases_of (add_user bob ''t3''
      (fst (cb_check_payment [9] bob ''300'' (polled 300 ''paid'') ''t2''
         (fst (cb_buy bob 1 (issued 300) ''t1'' shop))))) 2) = 1 \<and>
   \<not> aggregates_ok (add_user bob ''t3''
      (fst (cb_check_payment [9] bob ''300'' (polled 300 ''paid'') ''t2''
         (fst (cb_buy bob 1 (issued 300) ''t1'' shop)))))"
proof -
  have b: "fst (cb_buy bob 1 (issued 300) ''t1'' shop) = save_payment 2 1 ''300'' 5 ''t1'' shop"
    by (simp add: cb_buy_def get_product_def str_int_def str_nat.simps shop_defs)
  have c: "fst (cb_check_payment [9] bob ''300'' (polled 300 ''paid'') ''t2''
               (save_payment 2 1 ''300'' 5 ''t1'' shop)) =
           add_purchase 2 1 5 ''t2'' (update_payment_status ''300'' ''paid''
               (save_payment 2 1 ''300'' 5 ''t1'' shop))"
    by (simp add: cb_check_payment_def get_payment_def get_product_def shop_defs)
  show ?thesis
    unfolding b c
    by (simp add: get_user_def purchases_of_def aggregates_ok_def aggregate_matches_def shop_defs)
qed

section \<open>The transition from pending to paid\<close>

text \<open>
  The handler run step by step, with no helper failing and nothing in
  between, is \<open>cb_check_payment\<close>.
\<close>

lemma run_steps_no_failure:
  "run_steps admin_ids from_user invoice_id reply now [False, False, False, False, False]
     (d, At_check_invoice) =
   (fst (cb_check_payment admin_ids from_user invoice_id reply now d),
    Finished (snd (cb_check_payment admin_ids from_user invoice_id reply now d)))"
  by (simp add: cb_check_payment_def Let_def get_product_update_payment_status
        split: sum.splits option.splits)

lemma get_payment_update_payment_status:
  "get_payment (update_payment_status i s d) j =
     map_option (\<lambda>r. if pay_invoice_id r = i then r\<lparr>pay_status := s\<rparr> else r) (get_payment d j)"
  unfolding get_payment_def update_payment_status_def
  using find_map_same_key[of pay_invoice_id
      "\<lambda>r. if pay_invoice_id r = i then r\<lparr>pay_status := s\<rparr> else r" j "payments d"]
  by simp

lemma get_payment_add_purchase: "get_payment (add_purchase u p a n d) j = get_payment d j"
  by (simp add: get_payment_def add_purchase_def)

lemma get_payment_invoice_id: "get_payment d i = Some r \<Longrightarrow> pay_invoice_id r = i"
  by (auto simp: get_payment_def dest: find_Some_iff[THEN iffD1])

lemma check_loses:
  "check_invoice reply = Inr (Some invoice) \<Longrightarrow> inv_status invoice = ''paid'' \<Longrightarrow>
   get_payment d invoice_id = None \<or>
     (\<exists>payment. get_payment d invoice_id = Some payment \<and> pay_status payment \<noteq> ''pending'') \<Longrightarrow>
   cb_check_payment admin_ids from_user invoice_id reply now d = (d, Alert Product_already_given)"
  by (auto simp: cb_check_payment_def)

text \<open>
  C1, as the code has it. The transition is the read \<open>get_payment\<close>
  followed, after the test on the status read, by the write
  \<open>update_payment_status\<close>. For a check that finds the invoice paid at the
  processor and runs to its end with nothing in between: when no payment is
  filed under the invoice id or its status is not pending, the database is
  unchanged and the answer is that the product has already been given; when
  the status is pending, the rows of that invoice id become paid and the
  check goes on to fulfilment; and any check of the same invoice after it
  changes nothing and answers that the product has already been given.
\<close>

theorem uninterrupted_check_is_conditional_update:
  "check_invoice reply = Inr (Some invoice) \<Longrightarrow> inv_status invoice = ''paid'' \<Longrightarrow>
   run_steps admin_ids from_user invoice_id reply now [False, False, False, False, False]
       (d, At_check_invoice) =
     (fst (cb_check_payment admin_ids from_user invoice_id reply now d),
      Finished (snd (cb_check_payment admin_ids from_user invoice_id reply now d))) \<and>
   (case get_payment d invoice_id of
      None \<Rightarrow>
        cb_check_payment admin_ids from_user invoice_id reply now d =
          (d, Alert Product_already_given)
    | Some payment \<Rightarrow>
        if pay_status payment = ''pending''
        then payments (fst (cb_check_payment admin_ids from_user invoice_id reply now d)) =
               payments (update_payment_status invoice_id ''paid'' d) \<and>
             get_payment (fst (cb_check_payment admin_ids from_user invoice_id reply now d))
               invoice_id = Some (payment\<lparr>pay_status := ''paid''\<rparr>) \<and>
             snd (cb_check_payment admin_ids from_user invoice_id reply now d) =
               (case get_product d (pay_product_id payment) of
                  None \<Rightarrow> Raised TypeError
                | Some pr \<Rightarrow> Sent (deliver from_user pr @
                                    notify_admins admin_ids from_user pr payment))
        else cb_check_payment admin_ids from_user invoice_id reply now d =
               (d, Alert Product_already_given)) \<and>
   cb_check_payment admin_ids2 from_user2 invoice_id reply now2
       (fst (cb_check_payment admin_ids from_user invoice_id reply now d)) =
     (fst (cb_check_payment admin_ids from_user invoice_id reply now d),
      Alert Product_already_given)"
proof -
  assume c: "check_invoice reply = Inr (Some invoice)" and s: "inv_status invoice = ''paid''"
  let ?r = "cb_check_payment admin_ids from_user invoice_id reply now d"
  have first: "run_steps admin_ids from_user invoice_id reply now
      [False, False, False, False, False] (d, At_check_invoice) = (fst ?r, Finished (snd ?r))"
    by (rule run_steps_no_failure)
  show ?thesis
  proof (cases "get_payment d invoice_id")
    case None
    have l: "?r = (d, Alert Product_already_given)"
      using check_loses[OF c s] None by simp
    have "cb_check_payment admin_ids2 from_user2 invoice_id reply now2 d =
            (d, Alert Product_already_given)"
      using check_loses[OF c s] None by simp
    then show ?thesis using first None l by simp
  next
    case (Some payment)
    show ?thesis
    proof (cases "pay_status payment = ''pending''")
      case True
      note w = check_wins[OF Some True c s, of admin_ids from_user now]
      have k: "pay_invoice_id payment = invoice_id"
        using Some by (rule get_payment_invoice_id)
      have g: "get_payment (fst ?r) invoice_id = Some (payment\<lparr>pay_status := ''paid''\<rparr>)"
        using Some k
        by (simp add: w get_payment_add_purchase get_payment_update_payment_status)
      have "cb_check_payment admin_ids2 from_user2 invoice_id reply now2 (fst ?r) =
              (fst ?r, Alert Product_already_given)"
        using check_loses[OF c s, of "fst ?r" invoice_id] g by simp
      then show ?thesis
        using first Some True g by (simp add: w payments_add_purchase)
    next
      case False
      have l: "?r = (d, Alert Product_already_given)"
        using check_loses[OF c s] Some False by simp
      have "cb_check_payment admin_ids2 from_user2 invoice_id reply now2 d =
              (d, Alert Product_already_given)"
        using check_loses[OF c s] Some False by simp
      then show ?thesis using first Some False l by simp
    qed
  qed
qed

theorem uninterrupted_check_is_conditional_update_witness:
  "check_invoice (polled 100 ''paid'') =
     Inr (Some \<lparr>inv_invoice_id = 100, inv_status = ''paid'', inv_pay_url = ''url''\<rparr>) \<and>
   get_payment shop_pending ''100'' =
     Some \<lparr>pay_id = 1, pay_user_id = 1, pay_product_id = 1, pay_invoice_id = ''100'',
            pay_amount = 5, pay_status = ''pending'', pay_created_at = ''t1''\<rparr> \<and>
   get_payment (fst (cb_check_payment [9] alice ''100'' (polled 100 ''paid'') ''t2'' shop_pending))
       ''100'' =
     Some \<lparr>pay_id = 1, pay_user_id = 1, pay_product_id = 1, pay_invoice_id = ''100'',
            pay_amount = 5, pay_status = ''paid'', pay_created_at = ''t1''\<rparr> \<and>
   snd (cb_check_payment [9] alice ''100'' (polled 100 ''paid'') ''t2'' shop_pending) =
     Sent [Text_product ''key'' (Some ''secret''), Admin_notice 9 (Some ''alice'') ''key'' 5] \<and>
   cb_check_payment [9] alice ''100'' (polled 100 ''paid'') ''t3''
       (fst (cb_check_payment [9] alice ''100'' (polled 100 ''paid'') ''t2'' shop_pending)) =
     (fst (cb_check_payment [9] alice ''100'' (polled 100 ''paid'') ''t2'' shop_pending),
      Alert Product_already_given)"
proof -
  have c: "check_invoice (polled 100 ''paid'') =
     Inr (Some \<lparr>inv_invoice_id = 100, inv_status = ''paid'', inv_pay_url = ''url''\<rparr>)"
    by (simp add: polled_def)
  have i: "inv_status \<lparr>inv_invoice_id = 100, inv_status = ''paid'', inv_pay_url = ''url''\<rparr> = ''paid''"
    by simp
  have p: "get_payment shop_pending ''100'' =
     Some \<lparr>pay_id = 1, pay_user_id = 1, pay_product_id = 1, pay_invoice_id = ''100'',
            pay_amount = 5, pay_status = ''pending'', pay_created_at = ''t1''\<rparr>"
    by (simp add: get_payment_def shop_defs)
  have g: "get_product shop_pending 1 =
     Some \<lparr>p_id = 1, p_category_id = Some 1, p_name = ''key'', p_description = None,
            p_price = 5, p_product_type = ''text'', p_content = Some ''secret'',
            p_file_id = None, p_is_active = 1, p_created_at = ''t0''\<rparr>"
    by (simp add: get_product_def shop_defs)
  show ?thesis
    using c p g uninterrupted_check_is_conditional_update [OF c i, of "[9]" alice "''100''"
        "''t2''" shop_pending "[9]" alice "''t3''"]
    by (simp add: deliver_def notify_admins_def alice_def)
qed

text \<open>
  C1 as stated fails: two presses of the check button for the pending invoice
  100 whose handlers take turns at every await both read the status pending,
  both write paid, both record a purchase and both deliver. The ledger holds
  one payment and two purchases.
\<close>

theorem two_interleaved_checks_both_win_counterexample:
  "map pay_status (payments shop_pending) = [''pending''] \<and>
   map t_pc (snd (run_tasks [9]
       [(0, False), (1, False), (0, False), (1, False), (0, False), (1, False),
        (0, False), (1, False), (0, False), (1, False)]
       (shop_pending, [tap alice ''t2'', tap alice ''t3'']))) =
     [Finished (Sent [Text_product ''key'' (Some ''secret''), Admin_notice 9 (Some ''alice'') ''key'' 5]),
      Finished (Sent [Text_product ''key'' (Some ''secret''), Admin_notice 9 (Some ''alice'') ''key'' 5])] \<and>
   map pu_purchased_at (purchases (fst (run_tasks [9]
       [(0, False), (1, False), (0, False), (1, False), (0, False), (1, False),
        (0, False), (1, False), (0, False), (1, False)]
       (shop_pending, [tap alice ''t2'', tap alice ''t3''])))) = [''t2'', ''t3''] \<and>
   map pay_status (payments (fst (run_tasks [9]
       [(0, False), (1, False), (0, False), (1, False), (0, False), (1, False),
        (0, False), (1, False), (0, False), (1, False)]
       (shop_pending, [tap alice ''t2'', tap alice ''t3''])))) = [''paid'']"
  by (simp add: tap_def Let_def get_payment_def get_product_def deliver_def notify_admins_def
        shop_defs)


section \<open>Storage failures during a check\<close>

text \<open>Where a handler can end up, from each of its steps, whichever helpers fail.\<close>

lemma run_steps_finished:
  "run_steps a u i r n fs (dx, Finished out) = (dx, Finished out)"
  by (induction fs) auto

lemma run_from_add_purchase:
  "fst (run_steps a u i r n fs (dx, At_add_purchase p pr)) = dx \<or>
   fst (run_steps a u i r n fs (dx, At_add_purchase p pr)) =
     add_purchase (tg_id u) (pay_product_id p) (pay_amount p) n dx"
  by (cases fs) (auto simp: run_steps_finished)

lemma run_from_get_product:
  "fst (run_steps a u i r n fs (dx, At_get_product p)) = dx \<or>
   fst (run_steps a u i r n fs (dx, At_get_product p)) =
     add_purchase (tg_id u) (pay_product_id p) (pay_amount p) n dx"
proof (cases fs)
  case Nil
  then show ?thesis by simp
next
  case (Cons f fs')
  show ?thesis
    using run_from_add_purchase[of a u i r n fs' dx p "get_product dx (pay_product_id p)"]
    by (simp add: Cons run_steps_finished)
qed

lemma run_from_update_payment_status:
  "fst (run_steps a u i r n fs (dx, At_update_payment_status p)) = dx \<or>
   fst (run_steps a u i r n fs (dx, At_update_payment_status p)) =
     update_payment_status i ''paid'' dx \<or>
   fst (run_steps a u i r n fs (dx, At_update_payment_status p)) =
     add_purchase (tg_id u) (pay_product_id p) (pay_amount p) n
       (update_payment_status i ''paid'' dx)"
proof (cases fs)
  case Nil
  then show ?thesis by simp
next
  case (Cons f fs')
  show ?thesis
    using run_from_get_product[of a u i r n fs' "update_payment_status i ''paid'' dx" p]
    by (auto simp: Cons run_steps_finished)
qed

lemma run_from_get_payment:
  "fst (run_steps a u i r n fs (dx, At_get_payment)) = dx \<or>
   (\<exists>p. get_payment dx i = Some p \<and> pay_status p = ''pending'' \<and>
      (fst (run_steps a u i r n fs (dx, At_get_payment)) =
         update_payment_status i ''paid'' dx \<or>
       fst (run_steps a u i r n fs (dx, At_get_payment)) =
         add_purchase (tg_id u) (pay_product_id p) (pay_amount p) n
           (update_payment_status i ''paid'' dx)))"
proof (cases fs)
  case Nil
  then show ?thesis by simp
next
  case (Cons f fs')
  show ?thesis
  proof (cases "get_payment dx i")
    case None
    then show ?thesis by (simp add: Cons run_steps_finished)
  next
    case (Some p)
    show ?thesis
      using run_from_update_payment_status[of a u i r n fs' dx p] Some
      by (auto simp: Cons run_steps_finished)
  qed
qed

lemma run_from_check_invoice:
  "fst (run_steps a u i r n fs (dx, At_check_invoice)) = dx \<or>
   (\<exists>p. get_payment dx i = Some p \<and> pay_status p = ''pending'' \<and>
      (fst (run_steps a u i r n fs (dx, At_check_invoice)) =
         update_payment_status i ''paid'' dx \<or>
       fst (run_steps a u i r n fs (dx, At_check_invoice)) =
         add_purchase (tg_id u) (pay_product_id p) (pay_amount p) n
           (update_payment_status i ''paid'' dx)))"
proof (cases fs)
  case Nil
  then show ?thesis by simp
next
  case (Cons f fs')
  show ?thesis
    using run_from_get_payment[of a u i r n fs' dx]
    by (auto simp: Cons run_steps_finished split: sum.splits option.splits)
qed

lemma statuses_after_update:
  "list_all (\<lambda>s. s = st) (statuses_of (update_payment_status i st d) i)"
proof -
  have "list_all (\<lambda>s. s = st)
          (map pay_status (filter (\<lambda>r. pay_invoice_id r = i)
             (map (\<lambda>r. if pay_invoice_id r = i then r\<lparr>pay_status := st\<rparr> else r) xs)))" for xs
    by (induction xs) auto
  then show ?thesis by (simp add: statuses_of_def update_payment_status_def)
qed

lemma statuses_add_purchase: "statuses_of (add_purchase u p a n d) i = statuses_of d i"
  by (simp add: statuses_of_def add_purchase_def)

text \<open>
  C3, as the code has it. The status update is committed by
  \<open>update_payment_status\<close> on its own; the purchase row and the counters are
  committed together by \<open>add_purchase\<close>, which runs only after it. However
  many steps a check takes and whichever of its helpers fail, either the
  purchases and the users are as they were, or the purchase row has been
  appended together with the counter update and every payment row of the
  invoice id is paid. When no helper fails and the check wins, all three are
  in place.
\<close>

theorem purchase_only_with_counters_after_paid:
  "((purchases (fst (run_steps admin_ids from_user invoice_id reply now fs (d, At_check_invoice))) =
       purchases d \<and>
     users (fst (run_steps admin_ids from_user invoice_id reply now fs (d, At_check_invoice))) =
       users d) \<or>
    (\<exists>payment. get_payment d invoice_id = Some payment \<and>
       purchases (fst (run_steps admin_ids from_user invoice_id reply now fs (d, At_check_invoice))) =
         purchases d @
           [\<lparr>pu_id = purchases_seq d + 1, pu_user_id = tg_id from_user,
             pu_product_id = pay_product_id payment, pu_price = pay_amount payment,
             pu_purchased_at = now\<rparr>] \<and>
       users (fst (run_steps admin_ids from_user invoice_id reply now fs (d, At_check_invoice))) =
         map (bump_user (tg_id from_user) (pay_amount payment)) (users d) \<and>
       list_all (\<lambda>s. s = ''paid'')
         (statuses_of (fst (run_steps admin_ids from_user invoice_id reply now fs
                              (d, At_check_invoice))) invoice_id))) \<and>
   (get_payment d invoice_id = Some pending \<and> pay_status pending = ''pending'' \<and>
    check_invoice reply = Inr (Some invoice) \<and> inv_status invoice = ''paid'' \<longrightarrow>
      fst (run_steps admin_ids from_user invoice_id reply now
             [False, False, False, False, False] (d, At_check_invoice)) =
        add_purchase (tg_id from_user) (pay_product_id pending) (pay_amount pending) now
          (update_payment_status invoice_id ''paid'' d))"
proof (intro conjI impI)
  let ?d' = "fst (run_steps admin_ids from_user invoice_id reply now fs (d, At_check_invoice))"
  let ?upd = "update_payment_status invoice_id ''paid'' d"
  consider (same) "?d' = d"
    | (paid) "?d' = ?upd"
    | (all) p where "get_payment d invoice_id = Some p"
        "?d' = add_purchase (tg_id from_user) (pay_product_id p) (pay_amount p) now ?upd"
    using run_from_check_invoice[of admin_ids from_user invoice_id reply now fs d] by blast
  then show "(purchases ?d' = purchases d \<and> users ?d' = users d) \<or>
    (\<exists>payment. get_payment d invoice_id = Some payment \<and>
       purchases ?d' = purchases d @
           [\<lparr>pu_id = purchases_seq d + 1, pu_user_id = tg_id from_user,
             pu_product_id = pay_product_id payment, pu_price = pay_amount payment,
             pu_purchased_at = now\<rparr>] \<and>
       users ?d' = map (bump_user (tg_id from_user) (pay_amount payment)) (users d) \<and>
       list_all (\<lambda>s. s = ''paid'') (statuses_of ?d' invoice_id))"
  proof cases
    case same
    then show ?thesis by simp
  next
    case paid
    then show ?thesis by (simp add: update_payment_status_def)
  next
    case (all p)
    have "purchases ?d' = purchases d @
           [\<lparr>pu_id = purchases_seq d + 1, pu_user_id = tg_id from_user,
             pu_product_id = pay_product_id p, pu_price = pay_amount p,
             pu_purchased_at = now\<rparr>]"
      by (simp add: all(2) add_purchase_def update_payment_status_def)
    moreover have "users ?d' = map (bump_user (tg_id from_user) (pay_amount p)) (users d)"
      by (simp add: all(2) users_add_purchase) (simp add: update_payment_status_def)
    moreover have "list_all (\<lambda>s. s = ''paid'') (statuses_of ?d' invoice_id)"
      by (simp only: all(2) statuses_add_purchase statuses_after_update)
    ultimately show ?thesis using all(1) by blast
  qed
next
  assume a: "get_payment d invoice_id = Some pending \<and> pay_status pending = ''pending'' \<and>
    check_invoice reply = Inr (Some invoice) \<and> inv_status invoice = ''paid''"
  then have w: "cb_check_payment admin_ids from_user invoice_id reply now d =
     (add_purchase (tg_id from_user) (pay_product_id pending) (pay_amount pending) now
        (update_payment_status invoice_id ''paid'' d),
      case get_product d (pay_product_id pending) of
        None \<Rightarrow> Raised TypeError
      | Some pr \<Rightarrow> Sent (deliver from_user pr @ notify_admins admin_ids from_user pr pending))"
    using check_wins[of d invoice_id pending reply invoice admin_ids from_user now] by simp
  show "fst (run_steps admin_ids from_user invoice_id reply now
             [False, False, False, False, False] (d, At_check_invoice)) =
        add_purchase (tg_id from_user) (pay_product_id pending) (pay_amount pending) now
          (update_payment_status invoice_id ''paid'' d)"
    by (simp only: run_steps_no_failure w fst_conv)
qed

theorem purchase_only_with_counters_after_paid_witness:
  "get_payment shop_pending ''100'' =
     Some \<lparr>pay_id = 1, pay_user_id = 1, pay_product_id = 1, pay_invoice_id = ''100'',
            pay_amount = 5, pay_status = ''pending'', pay_created_at = ''t1''\<rparr> \<and>
   check_invoice (polled 100 ''paid'') =
     Inr (Some \<lparr>inv_invoice_id = 100, inv_status = ''paid'', inv_pay_url = ''url''\<rparr>) \<and>
   fst (run_steps [9] alice ''100'' (polled 100 ''paid'') ''t2''
          [False, False, False, False, False] (shop_pending, At_check_invoice)) = shop_paid \<and>
   statuses_of shop_paid ''100'' = [''paid''] \<and>
   map pu_user_id (purchases shop_paid) = [1] \<and>
   map u_total_purchases (users shop_paid) = [1] \<and>
   map u_total_spent (users shop_paid) = [5]"
proof -
  have p: "get_payment shop_pending ''100'' =
     Some \<lparr>pay_id = 1, pay_user_id = 1, pay_product_id = 1, pay_invoice_id = ''100'',
            pay_amount = 5, pay_status = ''pending'', pay_created_at = ''t1''\<rparr>"
    by (simp add: get_payment_def shop_defs)
  have c: "check_invoice (polled 100 ''paid'') =
     Inr (Some \<lparr>inv_invoice_id = 100, inv_status = ''paid'', inv_pay_url = ''url''\<rparr>)"
    by (simp add: polled_def)
  have s: "statuses_of shop_paid ''100'' = [''paid''] \<and> map pu_user_id (purchases shop_paid) = [1] \<and>
    map u_total_purchases (users shop_paid) = [1] \<and> map u_total_spent (users shop_paid) = [5]"
    by (simp add: statuses_of_def shop_defs)
  have e: "add_purchase (tg_id alice) 1 5 ''t2'' (update_payment_status ''100'' ''paid'' shop_pending)
           = shop_paid"
    by (simp add: shop_paid_def alice_def)
  show ?thesis
    using p c s e purchase_only_with_counters_after_paid [of "[9]" alice "''100''"
        "polled 100 ''paid''" "''t2''" "[]" shop_pending
        "\<lparr>pay_id = 1, pay_user_id = 1, pay_product_id = 1, pay_invoice_id = ''100'',
            pay_amount = 5, pay_status = ''pending'', pay_created_at = ''t1''\<rparr>"
        "\<lparr>inv_invoice_id = 100, inv_status = ''paid'', inv_pay_url = ''url''\<rparr>"]
    by simp
qed

text \<open>
  C3 as stated fails: when \<open>add_purchase\<close> fails after the status update has
  been committed, the payment stays paid with no purchase row, and the next
  check answers that the product has already been given.
\<close>

theorem paid_without_purchase_counterexample:
  "run_steps [9] alice ''100'' (polled 100 ''paid'') ''t2'' [False, False, False, False, True]
     (shop_pending, At_check_invoice) =
     (update_payment_status ''100'' ''paid'' shop_pending, Finished (Raised OperationalError)) \<and>
   statuses_of (update_payment_status ''100'' ''paid'' shop_pending) ''100'' = [''paid''] \<and>
   purchases (update_payment_status ''100'' ''paid'' shop_pending) = [] \<and>
   cb_check_payment [9] alice ''100'' (polled 100 ''paid'') ''t3''
     (update_payment_status ''100'' ''paid'' shop_pending) =
     (update_payment_status ''100'' ''paid'' shop_pending, Alert Product_already_given)"
  by (simp add: cb_check_payment_def statuses_of_def get_payment_def get_product_def shop_defs)

end
